theory Spec2Isabelle
  imports Complex_Main "HOL-Library.Sublist"
begin

section \<open>Spectrum path resolution of ms2rescore (\<^verbatim>\<open>ms2rescore/utils.py\<close>)\<close>

text \<open>
  The functions of \<^verbatim>\<open>utils.py\<close> that locate a spectrum file are embedded as HOL
  functions. They are pure apart from what they ask of the operating system and of the
  external spectrum reader, so everything they observe is gathered in one record that is
  passed as an argument, exceptions are values of a sum type, and the warning that
  \<^verbatim>\<open>infer_spectrum_path\<close> logs is returned next to its result.
\<close>

subsection \<open>Exceptions, log records and argument types\<close>

text \<open>
  \<^verbatim>\<open>MS2RescoreConfigurationError\<close> is what \<^verbatim>\<open>utils.py\<close> raises itself;
  \<^verbatim>\<open>AttributeError\<close> is what Python raises for a method that an object does not have.
  Both carry their message. \<^verbatim>\<open>SpectrumParsingError\<close> belongs to
  \<^verbatim>\<open>ms2rescore/parse_spectra.py\<close>; the text of its messages is not known here, so it
  carries what the message is about: that no spectrum path was given, or the spectrum
  identifier and the run of a PSM that has no precursor record.
\<close>

datatype parsing_failure =
    PathNotProvided
  | PrecursorNotFound string string

datatype error =
    MS2RescoreConfigurationError string
  | AttributeError string
  | SpectrumParsingError parsing_failure

text \<open>A call \<^verbatim>\<open>logger.warning(fmt, arg1, arg2)\<close>: the format string and its arguments.\<close>

datatype log_record = LogWarning string "string list"

text \<open>
  The parameter \<^verbatim>\<open>configured_path: Union[str, Path, None]\<close>. A \<^verbatim>\<open>pathlib.Path\<close>
  object is kept apart from a \<^verbatim>\<open>str\<close> because the two classes do not have the same
  methods.
\<close>

datatype path_like = PyNone | PyStr string | PyPath string

text \<open>The value \<^verbatim>\<open>Path(resolved_path)\<close> that \<^verbatim>\<open>infer_spectrum_path\<close> returns.\<close>

datatype path = Path string

text \<open>
  Python's truth test, as used by \<^verbatim>\<open>if not configured_path\<close> and \<^verbatim>\<open>if run_name\<close>:
  \<^verbatim>\<open>None\<close> and the empty string are false, every other string is true, and so is every
  \<^verbatim>\<open>Path\<close> object (the class defines neither \<^verbatim>\<open>__bool__\<close> nor \<^verbatim>\<open>__len__\<close>).
\<close>

fun truthy :: "path_like \<Rightarrow> bool" where
  "truthy PyNone = False"
| "truthy (PyStr s) = (s \<noteq> [])"
| "truthy (PyPath p) = True"

text \<open>\<^verbatim>\<open>run_name: Optional[str]\<close> under the truth test: the string when it is true.\<close>

fun truthy_name :: "string option \<Rightarrow> string option" where
  "truthy_name None = None"
| "truthy_name (Some r) = (if r = [] then None else Some r)"

subsection \<open>String and path functions of the Python library\<close>

definition startswith :: "string \<Rightarrow> string \<Rightarrow> bool" where
  "startswith s pre = (take (length pre) s = pre)"

definition endswith :: "string \<Rightarrow> string \<Rightarrow> bool" where
  "endswith s suf = (length suf \<le> length s \<and> drop (length s - length suf) s = suf)"

text \<open>
  \<^verbatim>\<open>os.path.join(a, b)\<close> of \<^verbatim>\<open>posixpath\<close>: an absolute \<^verbatim>\<open>b\<close> replaces \<^verbatim>\<open>a\<close>,
  otherwise the two are joined by one separator unless \<^verbatim>\<open>a\<close> is empty or already
  ends with it.
\<close>

definition os_path_join :: "string \<Rightarrow> string \<Rightarrow> string" where
  "os_path_join a b =
     (if startswith b ''/'' then b
      else if a = [] \<or> endswith a ''/'' then a @ b
      else a @ ''/'' @ b)"

text \<open>\<^verbatim>\<open>s.split(sep)\<close> for a one-character separator.\<close>

fun split_on :: "char \<Rightarrow> string \<Rightarrow> string list" where
  "split_on c [] = [[]]"
| "split_on c (x # xs) =
     (if x = c then [] # split_on c xs
      else (case split_on c xs of
              [] \<Rightarrow> [[x]]
            | w # ws \<Rightarrow> (x # w) # ws))"

text \<open>
  \<^verbatim>\<open>Path(p).name\<close> of a POSIX path: the last component, where empty components and
  \<^verbatim>\<open>.\<close> components are dropped when the path is parsed; the empty string when nothing
  is left.
\<close>

definition path_name :: "string \<Rightarrow> string" where
  "path_name p =
     (case rev (filter (\<lambda>x. x \<noteq> [] \<and> x \<noteq> ''.'') (split_on CHR ''/'' p)) of
        [] \<Rightarrow> []
      | n # _ \<Rightarrow> n)"

text \<open>\<^verbatim>\<open>s.rfind(c)\<close> for a character: the index of its last occurrence, if any.\<close>

definition rfind :: "string \<Rightarrow> char \<Rightarrow> nat option" where
  "rfind s c =
     (if c \<in> set s then Some (length s - 1 - length (takeWhile (\<lambda>x. x \<noteq> c) (rev s)))
      else None)"

text \<open>
  \<^verbatim>\<open>Path(p).stem\<close> (pathlib up to Python 3.13): the name without its last suffix; a dot
  in first or last position of the name does not start a suffix.
\<close>

definition path_stem :: "string \<Rightarrow> string" where
  "path_stem p =
     (let name = path_name p in
      case rfind name CHR ''.'' of
        None \<Rightarrow> name
      | Some i \<Rightarrow> if 0 < i \<and> i < length name - 1 then take i name else name)"

text \<open>
  Matching one file name against a pattern of \<^verbatim>\<open>Path.glob\<close>, for patterns made of
  literal characters, \<^verbatim>\<open>*\<close> (any run of characters, a leading dot included) and \<^verbatim>\<open>?\<close>
  (one character). Bracket classes are not modelled: the two patterns of
  \<^verbatim>\<open>_is_minitdf\<close> have none. Matching is case sensitive, as on POSIX.
\<close>

fun fnmatch :: "string \<Rightarrow> string \<Rightarrow> bool" where
  "fnmatch [] [] = True"
| "fnmatch [] (c # cs) = False"
| "fnmatch (p # ps) [] = (p = CHR ''*'' \<and> fnmatch ps [])"
| "fnmatch (p # ps) (c # cs) =
     (if p = CHR ''*'' then fnmatch ps (c # cs) \<or> fnmatch (p # ps) cs
      else if p = CHR ''?'' then fnmatch ps cs
      else p = c \<and> fnmatch ps cs)"

subsection \<open>What the functions observe\<close>

text \<open>
  \<^verbatim>\<open>os.path.isdir\<close>, \<^verbatim>\<open>os.path.isfile\<close> and \<^verbatim>\<open>os.path.exists\<close> all follow symbolic
  links and look at the kind of the object found: \<open>stat\<close> gives that kind, \<open>None\<close>
  when nothing is there. \<open>listdir\<close> gives the entry names of a directory (no entries for
  anything that is not a directory), \<open>glob\<close> is \<^verbatim>\<open>glob.glob\<close> on a pattern, and
  \<open>is_supported_file_type\<close> is the predicate imported from \<^verbatim>\<open>ms2rescore_rs\<close>,
  whose code is not part of this repository.
\<close>

datatype node = File | Dir | Other

record env =
  stat :: "string \<Rightarrow> node option"
  listdir :: "string \<Rightarrow> string list"
  glob :: "string \<Rightarrow> string list"
  is_supported_file_type :: "string \<Rightarrow> bool"

definition os_path_isdir :: "env \<Rightarrow> string \<Rightarrow> bool" where
  "os_path_isdir fs p = (stat fs p = Some Dir)"

definition os_path_isfile :: "env \<Rightarrow> string \<Rightarrow> bool" where
  "os_path_isfile fs p = (stat fs p = Some File)"

definition os_path_exists :: "env \<Rightarrow> string \<Rightarrow> bool" where
  "os_path_exists fs p = (stat fs p \<noteq> None)"

text \<open>
  \<^verbatim>\<open>Path(d).glob(pattern)\<close> for a pattern of one component: the entries of \<open>d\<close>
  whose name matches, each as the path \<^verbatim>\<open>d/name\<close>.
\<close>

definition Path_glob :: "env \<Rightarrow> string \<Rightarrow> string \<Rightarrow> path list" where
  "Path_glob fs d pattern =
     map (\<lambda>n. Path (d @ ''/'' @ n)) (filter (fnmatch pattern) (listdir fs d))"

subsection \<open>\<^verbatim>\<open>_is_minitdf\<close>\<close>

text \<open>
  \<^verbatim>\<open>
  files = set(Path(spectrum_file).glob("*ms2spectrum.bin"))
  files.update(Path(spectrum_file).glob("*ms2spectrum.parquet"))
  return len(files) >= 2
  \<close>
\<close>

definition is_minitdf :: "env \<Rightarrow> string \<Rightarrow> bool" where
  "is_minitdf fs spectrum_file =
     (let files = set (Path_glob fs spectrum_file ''*ms2spectrum.bin'');
          files = files \<union> set (Path_glob fs spectrum_file ''*ms2spectrum.parquet'')
      in card files \<ge> 2)"

subsection \<open>\<^verbatim>\<open>infer_spectrum_path\<close>\<close>

text \<open>
  The function has two parts. The first (lines 35 to 72) chooses the candidate
  \<^verbatim>\<open>resolved_path\<close> from the configured path and the run name, or raises; it is the
  only part that logs. \<^verbatim>\<open>is_bruker_dir\<close> is computed first, and on a \<^verbatim>\<open>Path\<close> object the
  call \<^verbatim>\<open>configured_path.endswith(".d")\<close> raises, because \<^verbatim>\<open>pathlib\<close> paths have no
  such method. Python's \<^verbatim>\<open>or\<close> does not call \<^verbatim>\<open>_is_minitdf\<close> when the path ends in
  \<^verbatim>\<open>.d\<close>; the call has no effect, so the disjunction is the same.
\<close>

definition is_bruker_dir :: "env \<Rightarrow> string \<Rightarrow> bool" where
  "is_bruker_dir fs configured_path =
     (endswith configured_path ''.d'' \<or> is_minitdf fs configured_path)"

definition no_path_no_run :: string where
  "no_path_no_run =
     ''Could not resolve spectrum file name: No spectrum path configured '' @
     ''and no run name in PSM file found.''"

definition directory_no_run :: string where
  "directory_no_run =
     ''Could not resolve spectrum file name: Spectrum path is directory '' @
     ''but no run name in PSM file found.''"

definition not_existing :: string where
  "not_existing =
     ''Configured `spectrum_path` must be `None` or a path to an existing file '' @
     ''or directory. If `None` or path to directory, spectrum run information '' @
     ''should be present in the PSM file.''"

definition stem_mismatch :: string where
  "stem_mismatch =
     ''Passed spectrum path (`%s`) does not match run name found in PSM '' @
     ''file (`%s`). Continuing with passed spectrum path.''"

definition no_endswith :: "string \<Rightarrow> string" where
  "no_endswith class_name =
     [CHR 0x27] @ class_name @ [CHR 0x27] @ '' object has no attribute '' @
     [CHR 0x27] @ ''endswith'' @ [CHR 0x27]"

definition candidate_of_str ::
  "env \<Rightarrow> string \<Rightarrow> string option \<Rightarrow> log_record list \<times> (error + string)" where
  "candidate_of_str fs configured_path run_name =
     (if os_path_isdir fs configured_path \<and> \<not> is_bruker_dir fs configured_path then
        (case truthy_name run_name of
           Some r \<Rightarrow> ([], Inr (os_path_join configured_path r))
         | None \<Rightarrow> ([], Inl (MS2RescoreConfigurationError directory_no_run)))
      else if os_path_isfile fs configured_path
              \<or> (os_path_isdir fs configured_path \<and> is_bruker_dir fs configured_path) then
        (case truthy_name run_name of
           Some r \<Rightarrow>
             (if path_stem configured_path \<noteq> path_stem r
              then [LogWarning stem_mismatch [configured_path, r]] else [],
              Inr configured_path)
         | None \<Rightarrow> ([], Inr configured_path))
      else ([], Inl (MS2RescoreConfigurationError not_existing)))"

definition candidate ::
  "env \<Rightarrow> path_like \<Rightarrow> string option \<Rightarrow> log_record list \<times> (error + string)" where
  "candidate fs configured_path run_name =
     (if \<not> truthy configured_path then
        (case truthy_name run_name of
           Some r \<Rightarrow> ([], Inr (os_path_join ''.'' r))
         | None \<Rightarrow> ([], Inl (MS2RescoreConfigurationError no_path_no_run)))
      else
        (case configured_path of
           PyStr s \<Rightarrow> candidate_of_str fs s run_name
         | PyPath p \<Rightarrow> ([], Inl (AttributeError (no_endswith ''PosixPath'')))
         | PyNone \<Rightarrow> ([], Inl (AttributeError (no_endswith ''NoneType'')))))"

text \<open>
  The second part (lines 75 to 87) keeps a candidate that is supported and exists, and
  otherwise takes the first supported match of \<^verbatim>\<open>glob(resolved_path + "*")\<close>; the
  \<^verbatim>\<open>else\<close> of the \<^verbatim>\<open>for\<close> loop raises when the loop ends without \<^verbatim>\<open>break\<close>, and
  the message is formatted with the candidate, which the loop has not changed then.
\<close>

definition unresolved :: "string \<Rightarrow> string" where
  "unresolved resolved_path =
     ''Resolved spectrum filename ('' @ [CHR 0x27] @ resolved_path @ [CHR 0x27] @
     '') does not contain a supported '' @
     ''file extension (mzML, MGF, or .d) and could not find any matching existing '' @
     ''files.''"

definition match_extension :: "env \<Rightarrow> string \<Rightarrow> error + path" where
  "match_extension fs resolved_path =
     (if \<not> is_supported_file_type fs resolved_path \<or> \<not> os_path_exists fs resolved_path then
        (case find (is_supported_file_type fs) (glob fs (resolved_path @ ''*'')) of
           Some filename \<Rightarrow> Inr (Path filename)
         | None \<Rightarrow> Inl (MS2RescoreConfigurationError (unresolved resolved_path)))
      else Inr (Path resolved_path))"

definition infer_spectrum_path ::
  "env \<Rightarrow> path_like \<Rightarrow> string option \<Rightarrow> log_record list \<times> (error + path)" where
  "infer_spectrum_path fs configured_path run_name =
     (case candidate fs configured_path run_name of
        (logs, Inl e) \<Rightarrow> (logs, Inl e)
      | (logs, Inr resolved_path) \<Rightarrow> (logs, match_extension fs resolved_path))"

subsection \<open>The names that count for \<^verbatim>\<open>_is_minitdf\<close>\<close>

text \<open>
  The entries of a directory whose name matches one of the two patterns; the set that
  \<^verbatim>\<open>_is_minitdf\<close> builds holds one path for each of them.
\<close>

definition minitdf_names :: "env \<Rightarrow> string \<Rightarrow> string set" where
  "minitdf_names fs d =
     {n \<in> set (listdir fs d).
        fnmatch ''*ms2spectrum.bin'' n \<or> fnmatch ''*ms2spectrum.parquet'' n}"

subsection \<open>A file system to run the functions on\<close>

text \<open>
  A working directory that holds \<^verbatim>\<open>run1.mgf\<close>, a directory \<^verbatim>\<open>dir\<close> with
  \<^verbatim>\<open>run1.mzML\<close>, \<^verbatim>\<open>run2.mgf\<close> and two text files, the Bruker directory \<^verbatim>\<open>sample.d\<close>, and three
  directories with miniTDF files: \<^verbatim>\<open>tdf\<close> with one file of each kind, \<^verbatim>\<open>tdf_one\<close>
  with a single one, and \<^verbatim>\<open>tdf_bins\<close> with two files of the same kind. The reader
  supports the extensions \<^verbatim>\<open>.mgf\<close>, \<^verbatim>\<open>.mzML\<close> and \<^verbatim>\<open>.d\<close> here.
\<close>

definition example_fs :: env where
  "example_fs =
     \<lparr>stat = map_of
        [(''.'', Dir), (''./run1.mgf'', File),
         (''dir'', Dir), (''dir/run1.mzML'', File), (''dir/notes.txt'', File),
         (''dir/run2.txt'', File), (''dir/run2.mgf'', File),
         (''sample.d'', Dir),
         (''tdf'', Dir), (''tdf/a.ms2spectrum.bin'', File),
         (''tdf/a.ms2spectrum.parquet'', File),
         (''tdf_one'', Dir), (''tdf_one/a.ms2spectrum.bin'', File),
         (''tdf_bins'', Dir), (''tdf_bins/a.ms2spectrum.bin'', File),
         (''tdf_bins/b.ms2spectrum.bin'', File)],
      listdir = (\<lambda>d. case map_of
        [(''.'', [''run1.mgf'', ''dir'', ''sample.d'', ''tdf'', ''tdf_one'', ''tdf_bins'']),
         (''dir'', [''run1.mzML'', ''notes.txt'', ''run2.txt'', ''run2.mgf'']),
         (''tdf'', [''a.ms2spectrum.bin'', ''a.ms2spectrum.parquet'']),
         (''tdf_one'', [''a.ms2spectrum.bin'']),
         (''tdf_bins'', [''a.ms2spectrum.bin'', ''b.ms2spectrum.bin''])] d of
           None \<Rightarrow> [] | Some names \<Rightarrow> names),
      glob = (\<lambda>pattern. case map_of
        [(''./run1*'', [''./run1.mgf'']),
         (''dir/run1*'', [''dir/run1.mzML'']),
         (''dir/run2*'', [''dir/run2.txt'', ''dir/run2.mgf'']),
         (''dir/notes*'', [''dir/notes.txt'']),
         (''dir/notes.txt*'', [''dir/notes.txt'']),
         (''dir/run1.mzML*'', [''dir/run1.mzML'']),
         (''sample.d*'', [''sample.d''])] pattern of
           None \<Rightarrow> [] | Some matches \<Rightarrow> matches),
      is_supported_file_type =
        (\<lambda>p. endswith p ''.mgf'' \<or> endswith p ''.mzML'' \<or> endswith p ''.d'')\<rparr>"


subsection \<open>Where a resolved path lies\<close>





section \<open>Precursor extraction (\<^verbatim>\<open>ms2rescore/parse_spectra.py\<close>)\<close>

text \<open>
  The module \<^verbatim>\<open>parse_spectra.py\<close> is not among the sources at hand: only its tests
  are. Its two functions are therefore written down from sections 3, 4.3 and 4.4 of the
  specification.
\<close>

subsection \<open>Data\<close>

text \<open>
  The fields of a PSM that matter here (section 3): the enrichment overwrites the three
  nullable numbers. Ion mobility uses \<open>0\<close> as the value that means ``not measured''.
\<close>

record PSM =
  psm_run :: string
  psm_spectrum_id :: string
  psm_retention_time :: "real option"
  psm_ion_mobility :: "real option"
  psm_precursor_mz :: "real option"

datatype MSDataType = retention_time | ion_mobility | precursor_mz | ms2_spectra

text \<open>What the external reader gives for one spectrum.\<close>

record Precursor =
  mz :: real
  rt :: real
  im :: real

text \<open>The three arrays of the extraction: m/z, retention time, ion mobility.\<close>

type_synonym arrays = "real list \<times> real list \<times> real list"

text \<open>
  The two collaborators of the extraction, as the tests replace them: the path resolver
  applied to the spectrum root and a run name, and the reader that maps a resolved source
  to its precursor records by spectrum identifier.
\<close>

record collaborators =
  resolve_path :: "string \<Rightarrow> string \<Rightarrow> error + path"
  get_precursor_info :: "path \<Rightarrow> string \<rightharpoonup> Precursor"

subsection \<open>\<^verbatim>\<open>_get_precursor_values\<close>\<close>

text \<open>
  Modelled from the spec: the lookups of one run of \<^verbatim>\<open>_get_precursor_values\<close>, whose
  code is in the missing \<^verbatim>\<open>parse_spectra.py\<close>. Section 4.3: ``for every PSM in that
  run look up its \<^verbatim>\<open>spectrum_id\<close>. Any PSM whose identifier is absent from the map causes
  an immediate SpectrumParsingError naming the missing identifier and run''. Each PSM
  comes with its position in the PSM list, and a record that is found is stored at that
  position of the three arrays.
\<close>

fun lookup_run ::
  "(string \<rightharpoonup> Precursor) \<Rightarrow> string \<Rightarrow> (nat \<times> PSM) list \<Rightarrow> arrays \<Rightarrow> error + arrays" where
  "lookup_run precursors r [] arrs = Inr arrs"
| "lookup_run precursors r ((i, psm) # rest) (mzs, rts, ims) =
     (if psm_run psm \<noteq> r then lookup_run precursors r rest (mzs, rts, ims)
      else (case precursors (psm_spectrum_id psm) of
              None \<Rightarrow> Inl (SpectrumParsingError (PrecursorNotFound (psm_spectrum_id psm) r))
            | Some rec \<Rightarrow>
                lookup_run precursors r rest
                  (mzs[i := mz rec], rts[i := rt rec], ims[i := im rec])))"

text \<open>
  Modelled from the spec: the loop over the runs of \<^verbatim>\<open>_get_precursor_values\<close> (code in
  the missing \<^verbatim>\<open>parse_spectra.py\<close>). Section 4.3: ``for each distinct run, resolve its
  source via PathResolver (using \<^verbatim>\<open>spectrum_root\<close> and the run name), invoke the external
  reader to obtain a \<^verbatim>\<open>spectrum_id -> PrecursorRecord\<close> map for that source, then for
  every PSM in that run look up its \<^verbatim>\<open>spectrum_id\<close>''. An error of the resolver or of a
  lookup ends the loop.
\<close>

fun extract_runs ::
  "(string \<Rightarrow> error + path) \<Rightarrow> (path \<Rightarrow> string \<rightharpoonup> Precursor) \<Rightarrow>
     (nat \<times> PSM) list \<Rightarrow> string list \<Rightarrow> arrays \<Rightarrow> error + arrays" where
  "extract_runs resolve reader indexed [] arrs = Inr arrs"
| "extract_runs resolve reader indexed (r # runs) arrs =
     (case resolve r of
        Inl e \<Rightarrow> Inl e
      | Inr source \<Rightarrow>
          (case lookup_run (reader source) r indexed arrs of
             Inl e \<Rightarrow> Inl e
           | Inr arrs' \<Rightarrow> extract_runs resolve reader indexed runs arrs'))"

text \<open>
  Modelled from the spec: \<^verbatim>\<open>_get_precursor_values\<close> of the missing
  \<^verbatim>\<open>parse_spectra.py\<close>. Section 4.3: ``group PSMs by run'' and return three arrays
  ``length-aligned to \<^verbatim>\<open>psm_list\<close> iteration order''. The arrays start with one slot
  for each PSM and the runs are taken in the order of \<open>remdups\<close>.
\<close>

definition get_precursor_values ::
  "(string \<Rightarrow> error + path) \<Rightarrow> (path \<Rightarrow> string \<rightharpoonup> Precursor) \<Rightarrow> PSM list \<Rightarrow> error + arrays" where
  "get_precursor_values resolve reader psm_list =
     (let zeros = replicate (length psm_list) 0
      in extract_runs resolve reader (enumerate 0 psm_list)
           (remdups (map psm_run psm_list)) (zeros, zeros, zeros))"

subsection \<open>\<^verbatim>\<open>add_precursor_values\<close>\<close>

text \<open>
  Modelled from the spec: step 1 of \<^verbatim>\<open>add_precursor_values\<close> (code in the missing
  \<^verbatim>\<open>parse_spectra.py\<close>). Section 4.4: ``a category is included only if every PSM has a
  non-null value for it (and, for ion mobility, also a non-sentinel value)''.
\<close>

definition already_available :: "PSM list \<Rightarrow> MSDataType set" where
  "already_available psm_list =
     (if list_all (\<lambda>p. psm_retention_time p \<noteq> None) psm_list
      then {retention_time} else {})
     \<union> (if list_all (\<lambda>p. psm_ion_mobility p \<noteq> None \<and> psm_ion_mobility p \<noteq> Some 0) psm_list
        then {ion_mobility} else {})
     \<union> (if list_all (\<lambda>p. psm_precursor_mz p \<noteq> None) psm_list
        then {precursor_mz} else {})"

text \<open>
  Modelled from the spec: step 5 of \<^verbatim>\<open>add_precursor_values\<close> (code in the missing
  \<^verbatim>\<open>parse_spectra.py\<close>): ``write \<^verbatim>\<open>mz\<close>, \<^verbatim>\<open>rt\<close>, \<^verbatim>\<open>im\<close> values onto each PSM
  at its positional index''.
\<close>

fun write_values :: "PSM list \<Rightarrow> real list \<Rightarrow> real list \<Rightarrow> real list \<Rightarrow> PSM list" where
  "write_values (psm # psms) (m # mzs) (r # rts) (i # ims) =
     psm\<lparr>psm_retention_time := Some r, psm_ion_mobility := Some i, psm_precursor_mz := Some m\<rparr>
       # write_values psms mzs rts ims"
| "write_values psms mzs rts ims = psms"

text \<open>
  Modelled from the spec: \<^verbatim>\<open>add_precursor_values\<close> of the missing
  \<^verbatim>\<open>parse_spectra.py\<close>, steps 1 to 7 of section 4.4. The PSMs are changed in place by
  the code; here the changed list is returned with the set of available categories. An
  error leaves the list as it was.
\<close>

definition add_precursor_values ::
  "collaborators \<Rightarrow> PSM list \<Rightarrow> MSDataType set \<Rightarrow> string option
     \<Rightarrow> error + (PSM list \<times> MSDataType set)" where
  "add_precursor_values ext psm_list required spectrum_path =
     (let available = already_available psm_list;
          ms2 = (if spectrum_path \<noteq> None then {ms2_spectra} else {})
      in if required \<subseteq> available then Inr (psm_list, available \<union> ms2)
         else (case spectrum_path of
                 None \<Rightarrow> Inl (SpectrumParsingError PathNotProvided)
               | Some spectrum_root \<Rightarrow>
                   (case get_precursor_values (resolve_path ext spectrum_root)
                           (get_precursor_info ext) psm_list of
                      Inl e \<Rightarrow> Inl e
                    | Inr (mzs, rts, ims) \<Rightarrow>
                        (let written = write_values psm_list mzs rts ims
                         in if list_all (\<lambda>v. v = 0) ims
                            then Inr (map (\<lambda>p. p\<lparr>psm_ion_mobility := None\<rparr>) written,
                                      {retention_time, precursor_mz} \<union> ms2)
                            else Inr (written,
                                      {retention_time, ion_mobility, precursor_mz} \<union> ms2)))))"

subsection \<open>The PSM lists and readers of the tests\<close>

text \<open>
  \<^verbatim>\<open>mock_psm_list\<close> of \<^verbatim>\<open>tests/test_parse_spectra.py\<close>, and the three readers
  \<^verbatim>\<open>mock_precursor_info\<close>, \<^verbatim>\<open>mock_precursor_info_missing_im\<close> and
  \<^verbatim>\<open>mock_precursor_info_incomplete\<close>; the resolver always answers
  \<^verbatim>\<open>test_data/test_spectrum_file.mgf\<close>.
\<close>

definition mock_psm_list :: "PSM list" where
  "mock_psm_list =
     [\<lparr>psm_run = ''run1'', psm_spectrum_id = ''spectrum1'', psm_retention_time = None,
       psm_ion_mobility = None, psm_precursor_mz = None\<rparr>,
      \<lparr>psm_run = ''run1'', psm_spectrum_id = ''spectrum2'', psm_retention_time = None,
       psm_ion_mobility = None, psm_precursor_mz = None\<rparr>]"

definition mock_infer_spectrum_path :: "string \<Rightarrow> string \<Rightarrow> error + path" where
  "mock_infer_spectrum_path spectrum_root r = Inr (Path ''test_data/test_spectrum_file.mgf'')"

definition mock_precursor_info :: "path \<Rightarrow> string \<rightharpoonup> Precursor" where
  "mock_precursor_info source =
     [''spectrum1'' \<mapsto> \<lparr>mz = 529.7935187324, rt = 10.5, im = 1.0\<rparr>,
      ''spectrum2'' \<mapsto> \<lparr>mz = 651.83, rt = 12.3, im = 1.2\<rparr>]"

definition mock_precursor_info_missing_im :: "path \<Rightarrow> string \<rightharpoonup> Precursor" where
  "mock_precursor_info_missing_im source =
     [''spectrum1'' \<mapsto> \<lparr>mz = 529.7935187324, rt = 10.5, im = 0.0\<rparr>,
      ''spectrum2'' \<mapsto> \<lparr>mz = 651.83, rt = 12.3, im = 0.0\<rparr>]"

definition mock_precursor_info_incomplete :: "path \<Rightarrow> string \<rightharpoonup> Precursor" where
  "mock_precursor_info_incomplete source =
     [''spectrum1'' \<mapsto> \<lparr>mz = 529.7935187324, rt = 10.5, im = 1.0\<rparr>]"

definition all_precursor_types :: "MSDataType set" where
  "all_precursor_types = {retention_time, ion_mobility, precursor_mz}"

subsection \<open>Predicates used in the proofs\<close>

text \<open>The three arrays all have the given length.\<close>

definition array_lengths :: "nat \<Rightarrow> arrays \<Rightarrow> bool" where
  "array_lengths n arrs = (case arrs of (mzs, rts, ims) \<Rightarrow>
      length mzs = n \<and> length rts = n \<and> length ims = n)"

text \<open>
  A run has a PSM without precursor record: the run resolves to a source, and the map
  read from that source has no entry for the spectrum identifier of one of its PSMs.
\<close>

definition missing_in ::
  "(string \<Rightarrow> error + path) \<Rightarrow> (path \<Rightarrow> string \<rightharpoonup> Precursor) \<Rightarrow>
     (nat \<times> PSM) list \<Rightarrow> string \<Rightarrow> bool" where
  "missing_in resolve reader ips r =
     (\<exists>j p source. (j, p) \<in> set ips \<and> psm_run p = r \<and> resolve r = Inr source
         \<and> reader source (psm_spectrum_id p) = None)"

section \<open>Properties of the path resolution\<close>

lemmas fs_defs = os_path_isdir_def os_path_isfile_def os_path_exists_def
lemmas ex_defs = example_fs_def endswith_def startswith_def os_path_join_def

subsection \<open>The first supported match of a list\<close>

lemma find_first_match:
  assumes "xs = pre @ f # post" and "\<forall>x\<in>set pre. \<not> P x" and "P f"
  shows "find P xs = Some f"
  using assms by (induction pre arbitrary: xs) auto

lemma find_no_match: "(\<forall>x\<in>set xs. \<not> P x) \<Longrightarrow> find P xs = None"
  by (simp add: find_None_iff)


subsection \<open>No configured path\<close>

text \<open>
  C3: without a configured path and without a run name the function raises
  \<^verbatim>\<open>MS2RescoreConfigurationError\<close>. Without a configured path but with a run name (a
  non-empty string: the test is \<^verbatim>\<open>if run_name\<close>) the candidate is
  \<^verbatim>\<open>os.path.join(".", run_name)\<close>, which is \<^verbatim>\<open>./run_name\<close> for a relative run name,
  and the result is what the extension matching makes of that candidate.
\<close>

theorem infer_spectrum_path_no_configured_path:
  "infer_spectrum_path fs PyNone None = ([], Inl (MS2RescoreConfigurationError no_path_no_run))
   \<and> (r \<noteq> [] \<longrightarrow>
        candidate fs PyNone (Some r) = ([], Inr (os_path_join ''.'' r))
      \<and> infer_spectrum_path fs PyNone (Some r) = ([], match_extension fs (os_path_join ''.'' r))
      \<and> (\<not> startswith r ''/'' \<longrightarrow> os_path_join ''.'' r = ''./'' @ r))"
  by (simp add: infer_spectrum_path_def candidate_def os_path_join_def endswith_def)

theorem infer_spectrum_path_no_configured_path_witness:
  "''run1'' \<noteq> [] \<and> candidate example_fs PyNone (Some ''run1'') = ([], Inr ''./run1'')
   \<and> infer_spectrum_path example_fs PyNone (Some ''run1'') = ([], Inr (Path ''./run1.mgf''))"
  using infer_spectrum_path_no_configured_path [of example_fs "''run1''"]
  by (simp add: ex_defs fs_defs match_extension_def)



subsection \<open>A \<^verbatim>\<open>Path\<close> object as configured path\<close>

text \<open>
  C9: the signature allows a \<^verbatim>\<open>pathlib.Path\<close>, but for every such object the function
  raises \<^verbatim>\<open>AttributeError\<close> when it computes \<^verbatim>\<open>is_bruker_dir\<close>, before any file is
  looked at: whatever the file system and the run name are, the result is that error,
  never a \<^verbatim>\<open>MS2RescoreConfigurationError\<close> and never a path.
\<close>

theorem infer_spectrum_path_Path_object:
  "infer_spectrum_path fs (PyPath p) run_name = ([], Inl (AttributeError (no_endswith ''PosixPath'')))"
  by (simp add: infer_spectrum_path_def candidate_def)

theorem infer_spectrum_path_Path_object_witness:
  "infer_spectrum_path example_fs (PyPath ''dir'') (Some ''run1'')
     = ([], Inl (AttributeError (no_endswith ''PosixPath'')))
   \<and> infer_spectrum_path example_fs (PyPath ''sample.d'') None
     = ([], Inl (AttributeError (no_endswith ''PosixPath'')))"
  using infer_spectrum_path_Path_object [of example_fs "''dir''" "Some ''run1''"]
    infer_spectrum_path_Path_object [of example_fs "''sample.d''" None]
  by simp

subsection \<open>A configured directory\<close>








subsection \<open>A configured file or Bruker directory\<close>

text \<open>
  C8: a configured path that ends in \<^verbatim>\<open>.d\<close>, is an existing directory and is of a
  supported type is returned as it is when there is no run name.
\<close>

theorem infer_spectrum_path_bruker_d:
  assumes "endswith p ''.d''" and "os_path_isdir fs p" and "is_supported_file_type fs p"
  shows "infer_spectrum_path fs (PyStr p) None = ([], Inr (Path p))"
proof -
  from assms(1) have ne: "p \<noteq> []" by (auto simp: endswith_def)
  from assms(1) have b: "is_bruker_dir fs p" by (simp add: is_bruker_dir_def)
  from assms(2) have ex: "os_path_exists fs p" by (simp add: fs_defs)
  have "candidate fs (PyStr p) None = ([], Inr p)"
    using ne b assms(2) by (simp add: candidate_def candidate_of_str_def)
  then show ?thesis using ex assms(3)
    by (simp add: infer_spectrum_path_def match_extension_def)
qed

theorem infer_spectrum_path_bruker_d_witness:
  "endswith ''sample.d'' ''.d'' \<and> os_path_isdir example_fs ''sample.d''
   \<and> is_supported_file_type example_fs ''sample.d''
   \<and> infer_spectrum_path example_fs (PyStr ''sample.d'') None = ([], Inr (Path ''sample.d''))"
proof -
  have 1: "endswith ''sample.d'' ''.d''" by (simp add: endswith_def)
  have 2: "os_path_isdir example_fs ''sample.d''" by (simp add: example_fs_def fs_defs)
  have 3: "is_supported_file_type example_fs ''sample.d''" by (simp add: example_fs_def endswith_def)
  show ?thesis using 1 2 3 infer_spectrum_path_bruker_d [OF 1 2 3] by simp
qed

text \<open>
  C6: when the configured path is an existing file, or an existing Bruker directory, and
  the run name has another stem, choosing the candidate does not raise: it logs one
  warning and the candidate is the configured path, unchanged. What the function then
  returns or raises is what it returns or raises for the same path without a run name;
  for a path of a supported type that is the configured path itself.
\<close>

theorem infer_spectrum_path_stem_mismatch:
  assumes "p \<noteq> []"
    and "os_path_isfile fs p \<or> (os_path_isdir fs p \<and> is_bruker_dir fs p)"
    and "r \<noteq> []" and "path_stem p \<noteq> path_stem r"
  shows "candidate fs (PyStr p) (Some r) = ([LogWarning stem_mismatch [p, r]], Inr p)
       \<and> infer_spectrum_path fs (PyStr p) (Some r)
           = ([LogWarning stem_mismatch [p, r]], match_extension fs p)
       \<and> snd (infer_spectrum_path fs (PyStr p) (Some r))
           = snd (infer_spectrum_path fs (PyStr p) None)
       \<and> (is_supported_file_type fs p \<longrightarrow>
            infer_spectrum_path fs (PyStr p) (Some r)
              = ([LogWarning stem_mismatch [p, r]], Inr (Path p)))"
proof -
  have ex: "os_path_exists fs p" using assms(2) by (auto simp: fs_defs)
  have "\<not> (os_path_isdir fs p \<and> \<not> is_bruker_dir fs p)"
    using assms(2) by (auto simp: fs_defs)
  then have c: "candidate fs (PyStr p) run_name =
      (case truthy_name run_name of
         Some r \<Rightarrow> (if path_stem p \<noteq> path_stem r
                     then [LogWarning stem_mismatch [p, r]] else [], Inr p)
       | None \<Rightarrow> ([], Inr p))" for run_name
    using assms(1,2) by (auto simp: candidate_def candidate_of_str_def)
  show ?thesis using assms(3,4) ex
    by (simp add: c infer_spectrum_path_def match_extension_def)
qed

theorem infer_spectrum_path_stem_mismatch_witness:
  "''dir/run1.mzML'' \<noteq> [] \<and> os_path_isfile example_fs ''dir/run1.mzML'' \<and> ''run2'' \<noteq> []
   \<and> path_stem ''dir/run1.mzML'' \<noteq> path_stem ''run2''
   \<and> infer_spectrum_path example_fs (PyStr ''dir/run1.mzML'') (Some ''run2'')
       = ([LogWarning stem_mismatch [''dir/run1.mzML'', ''run2'']],
          Inr (Path ''dir/run1.mzML''))"
proof -
  have 1: "''dir/run1.mzML'' \<noteq> []" by simp
  have f: "os_path_isfile example_fs ''dir/run1.mzML''"
    by (simp add: example_fs_def fs_defs)
  then have 2: "os_path_isfile example_fs ''dir/run1.mzML''
           \<or> (os_path_isdir example_fs ''dir/run1.mzML'' \<and> is_bruker_dir example_fs ''dir/run1.mzML'')"
    by simp
  have 3: "''run2'' \<noteq> []" by simp
  have 4: "path_stem ''dir/run1.mzML'' \<noteq> path_stem ''run2''"
    by (simp add: path_stem_def path_name_def rfind_def)
  have 5: "is_supported_file_type example_fs ''dir/run1.mzML''"
    by (simp add: ex_defs)
  from infer_spectrum_path_stem_mismatch [OF 1 2 3 4] 5
  have "infer_spectrum_path example_fs (PyStr ''dir/run1.mzML'') (Some ''run2'')
       = ([LogWarning stem_mismatch [''dir/run1.mzML'', ''run2'']],
          Inr (Path ''dir/run1.mzML''))"
    by blast
  with f 4 show ?thesis by simp
qed

subsection \<open>Matching the extension\<close>

text \<open>
  C7: when the candidate is not both supported and existing, the function returns the
  first supported match of \<^verbatim>\<open>glob(candidate + "*")\<close>; when no match is supported it
  raises \<^verbatim>\<open>MS2RescoreConfigurationError\<close>, and the message contains the candidate.
\<close>

theorem infer_spectrum_path_glob_fallback:
  assumes "candidate fs configured_path run_name = (logs, Inr c)"
    and "\<not> (is_supported_file_type fs c \<and> os_path_exists fs c)"
  shows "(\<forall>pre f post. glob fs (c @ ''*'') = pre @ f # post
            \<and> (\<forall>x\<in>set pre. \<not> is_supported_file_type fs x) \<and> is_supported_file_type fs f
          \<longrightarrow> infer_spectrum_path fs configured_path run_name = (logs, Inr (Path f)))
       \<and> ((\<forall>x\<in>set (glob fs (c @ ''*'')). \<not> is_supported_file_type fs x)
          \<longrightarrow> infer_spectrum_path fs configured_path run_name
                = (logs, Inl (MS2RescoreConfigurationError (unresolved c)))
              \<and> (\<exists>before after. unresolved c = before @ c @ after))"
proof -
  have step: "infer_spectrum_path fs configured_path run_name =
      (logs, case find (is_supported_file_type fs) (glob fs (c @ ''*'')) of
               Some filename \<Rightarrow> Inr (Path filename)
             | None \<Rightarrow> Inl (MS2RescoreConfigurationError (unresolved c)))"
    using assms by (auto simp: infer_spectrum_path_def match_extension_def)
  have "unresolved c = (''Resolved spectrum filename ('' @ [CHR 0x27]) @ c @
      ([CHR 0x27] @ '') does not contain a supported '' @
       ''file extension (mzML, MGF, or .d) and could not find any matching existing '' @
       ''files.'')"
    by (simp add: unresolved_def)
  then have named: "\<exists>before after. unresolved c = before @ c @ after"
    by blast
  show ?thesis
  proof (intro conjI allI impI)
    fix pre f post
    assume "glob fs (c @ ''*'') = pre @ f # post
            \<and> (\<forall>x\<in>set pre. \<not> is_supported_file_type fs x) \<and> is_supported_file_type fs f"
    then have "find (is_supported_file_type fs) (glob fs (c @ ''*'')) = Some f"
      by (intro find_first_match [where pre = pre and post = post]) auto
    then show "infer_spectrum_path fs configured_path run_name = (logs, Inr (Path f))"
      by (simp add: step)
  next
    assume "\<forall>x\<in>set (glob fs (c @ ''*'')). \<not> is_supported_file_type fs x"
    then have "find (is_supported_file_type fs) (glob fs (c @ ''*'')) = None"
      by (rule find_no_match)
    then show "infer_spectrum_path fs configured_path run_name
                = (logs, Inl (MS2RescoreConfigurationError (unresolved c)))"
      by (simp add: step)
  next
    show "\<exists>before after. unresolved c = before @ c @ after" by (rule named)
  qed
qed

theorem infer_spectrum_path_glob_fallback_witness:
  "infer_spectrum_path example_fs (PyStr ''dir'') (Some ''run2'')
     = ([], Inr (Path ''dir/run2.mgf''))
   \<and> infer_spectrum_path example_fs (PyStr ''dir'') (Some ''notes'')
     = ([], Inl (MS2RescoreConfigurationError (unresolved ''dir/notes'')))"
proof -
  have plain: "os_path_isdir example_fs ''dir''" "\<not> is_bruker_dir example_fs ''dir''"
    by (simp_all add: is_bruker_dir_def is_minitdf_def Path_glob_def ex_defs fs_defs)
  have c2: "candidate example_fs (PyStr ''dir'') (Some ''run2'') = ([], Inr ''dir/run2'')"
    using plain by (simp add: candidate_def candidate_of_str_def os_path_join_def
        endswith_def startswith_def)
  have n2: "\<not> (is_supported_file_type example_fs ''dir/run2''
               \<and> os_path_exists example_fs ''dir/run2'')"
    by (simp add: ex_defs)
  have g2: "glob example_fs (''dir/run2'' @ ''*'') = [''dir/run2.txt''] @ ''dir/run2.mgf'' # []
      \<and> (\<forall>x\<in>set [''dir/run2.txt'']. \<not> is_supported_file_type example_fs x)
      \<and> is_supported_file_type example_fs ''dir/run2.mgf''"
    by (simp add: ex_defs)
  have first: "infer_spectrum_path example_fs (PyStr ''dir'') (Some ''run2'')
      = ([], Inr (Path ''dir/run2.mgf''))"
    using infer_spectrum_path_glob_fallback [OF c2 n2] g2 by blast
  have c3: "candidate example_fs (PyStr ''dir'') (Some ''notes'') = ([], Inr ''dir/notes'')"
    using plain by (simp add: candidate_def candidate_of_str_def os_path_join_def
        endswith_def startswith_def)
  have n3: "\<not> (is_supported_file_type example_fs ''dir/notes''
               \<and> os_path_exists example_fs ''dir/notes'')"
    by (simp add: ex_defs)
  have g3: "\<forall>x\<in>set (glob example_fs (''dir/notes'' @ ''*'')).
               \<not> is_supported_file_type example_fs x"
    by (simp add: ex_defs)
  have none: "infer_spectrum_path example_fs (PyStr ''dir'') (Some ''notes'')
      = ([], Inl (MS2RescoreConfigurationError (unresolved ''dir/notes'')))"
    using infer_spectrum_path_glob_fallback [OF c3 n3] g3 by blast
  from first none show ?thesis by simp
qed

section \<open>Properties of \<^verbatim>\<open>_is_minitdf\<close>\<close>

lemma fnmatch_literal:
  "CHR ''*'' \<notin> set ps \<Longrightarrow> CHR ''?'' \<notin> set ps \<Longrightarrow> fnmatch ps n \<longleftrightarrow> n = ps"
proof (induction ps arbitrary: n)
  case Nil
  then show ?case by (cases n) simp_all
next
  case (Cons p ps)
  then show ?case by (cases n) auto
qed

lemma fnmatch_star:
  "fnmatch (CHR ''*'' # ps) n \<longleftrightarrow> (\<exists>k\<le>length n. fnmatch ps (drop k n))"
proof (induction n)
  case Nil
  then show ?case by simp
next
  case (Cons c cs)
  have "(\<exists>k\<le>length (c # cs). fnmatch ps (drop k (c # cs)))
        \<longleftrightarrow> fnmatch ps (c # cs) \<or> (\<exists>k\<le>length cs. fnmatch ps (drop k cs))"
  proof
    assume "\<exists>k\<le>length (c # cs). fnmatch ps (drop k (c # cs))"
    then obtain k where k: "k \<le> length (c # cs)" "fnmatch ps (drop k (c # cs))" by blast
    show "fnmatch ps (c # cs) \<or> (\<exists>k\<le>length cs. fnmatch ps (drop k cs))"
    proof (cases k)
      case 0
      with k show ?thesis by simp
    next
      case (Suc j)
      with k have "j \<le> length cs" "fnmatch ps (drop j cs)" by simp_all
      then show ?thesis by blast
    qed
  next
    assume "fnmatch ps (c # cs) \<or> (\<exists>k\<le>length cs. fnmatch ps (drop k cs))"
    then show "\<exists>k\<le>length (c # cs). fnmatch ps (drop k (c # cs))"
    proof
      assume "fnmatch ps (c # cs)"
      then have "0 \<le> length (c # cs) \<and> fnmatch ps (drop 0 (c # cs))" by simp
      then show ?thesis by blast
    next
      assume "\<exists>k\<le>length cs. fnmatch ps (drop k cs)"
      then obtain k where "k \<le> length cs" "fnmatch ps (drop k cs)" by blast
      then have "Suc k \<le> length (c # cs) \<and> fnmatch ps (drop (Suc k) (c # cs))" by simp
      then show ?thesis by blast
    qed
  qed
  with Cons show ?case by simp
qed

lemma endswith_drop: "endswith n s \<longleftrightarrow> (\<exists>k\<le>length n. drop k n = s)"
proof
  assume "endswith n s"
  then have "length n - length s \<le> length n \<and> drop (length n - length s) n = s"
    by (simp add: endswith_def)
  then show "\<exists>k\<le>length n. drop k n = s" by blast
next
  assume "\<exists>k\<le>length n. drop k n = s"
  then obtain k where k: "k \<le> length n" "drop k n = s" by blast
  then have "length s = length n - k" by auto
  with k show "endswith n s" by (simp add: endswith_def)
qed

lemma fnmatch_star_literal:
  assumes "CHR ''*'' \<notin> set s" and "CHR ''?'' \<notin> set s"
  shows "fnmatch (CHR ''*'' # s) n \<longleftrightarrow> endswith n s"
  using assms by (simp add: fnmatch_star fnmatch_literal endswith_drop)

lemma fnmatch_bin: "fnmatch ''*ms2spectrum.bin'' n \<longleftrightarrow> endswith n ''ms2spectrum.bin''"
  using fnmatch_star_literal [of "''ms2spectrum.bin''" n] by simp

lemma fnmatch_parquet:
  "fnmatch ''*ms2spectrum.parquet'' n \<longleftrightarrow> endswith n ''ms2spectrum.parquet''"
  using fnmatch_star_literal [of "''ms2spectrum.parquet''" n] by simp

lemma endswith_last: "endswith n s \<Longrightarrow> s \<noteq> [] \<Longrightarrow> last n = last s"
proof -
  assume e: "endswith n s" and ne: "s \<noteq> []"
  then have "n = take (length n - length s) n @ s"
    by (metis append_take_drop_id endswith_def)
  then have "last n = last (take (length n - length s) n @ s)" by simp
  also have "\<dots> = last s" using ne by simp
  finally show ?thesis .
qed

lemma patterns_disjoint:
  "\<not> (fnmatch ''*ms2spectrum.bin'' n \<and> fnmatch ''*ms2spectrum.parquet'' n)"
proof
  assume "fnmatch ''*ms2spectrum.bin'' n \<and> fnmatch ''*ms2spectrum.parquet'' n"
  then have "endswith n ''ms2spectrum.bin''" "endswith n ''ms2spectrum.parquet''"
    by (simp_all add: fnmatch_bin fnmatch_parquet)
  then have "last n = CHR ''n''" "last n = CHR ''t''"
    by (auto dest: endswith_last)
  then show False by simp
qed

lemma is_minitdf_card: "is_minitdf fs d \<longleftrightarrow> 2 \<le> card (minitdf_names fs d)"
proof -
  let ?f = "\<lambda>n. Path (d @ ''/'' @ n)"
  have inj: "inj ?f" by (simp add: inj_def)
  have "set (Path_glob fs d ''*ms2spectrum.bin'') \<union> set (Path_glob fs d ''*ms2spectrum.parquet'')
        = ?f ` minitdf_names fs d"
    by (auto simp: Path_glob_def minitdf_names_def)
  then have "card (set (Path_glob fs d ''*ms2spectrum.bin'')
                   \<union> set (Path_glob fs d ''*ms2spectrum.parquet''))
             = card (minitdf_names fs d)"
    using inj by (simp add: card_image inj_on_def)
  then show ?thesis by (simp add: is_minitdf_def)
qed

lemma two_le_card:
  assumes "finite S" "a \<in> S" "b \<in> S" "a \<noteq> b"
  shows "2 \<le> card S"
proof -
  have "card {a, b} \<le> card S" using assms by (intro card_mono) auto
  then show ?thesis using assms(4) by simp
qed

text \<open>
  C5: \<^verbatim>\<open>_is_minitdf\<close> is true exactly when at least two entries of the directory match
  one of the patterns \<^verbatim>\<open>*ms2spectrum.bin\<close> and \<^verbatim>\<open>*ms2spectrum.parquet\<close>. So a
  directory with an entry for each pattern is a bundle, a directory with a single
  matching entry is not, and a directory with two different entries that match the same
  pattern is a bundle as well.
\<close>

theorem is_minitdf_two_matches:
  "(is_minitdf fs d \<longleftrightarrow> 2 \<le> card (minitdf_names fs d))
   \<and> (\<forall>a b. a \<in> set (listdir fs d) \<and> b \<in> set (listdir fs d)
          \<and> fnmatch ''*ms2spectrum.bin'' a \<and> fnmatch ''*ms2spectrum.parquet'' b
        \<longrightarrow> is_minitdf fs d)
   \<and> (\<forall>a. minitdf_names fs d = {a} \<longrightarrow> \<not> is_minitdf fs d)
   \<and> (\<forall>a b. a \<in> set (listdir fs d) \<and> b \<in> set (listdir fs d) \<and> a \<noteq> b
          \<and> fnmatch ''*ms2spectrum.bin'' a \<and> fnmatch ''*ms2spectrum.bin'' b
        \<longrightarrow> is_minitdf fs d)"
proof (intro conjI allI impI)
  show "is_minitdf fs d \<longleftrightarrow> 2 \<le> card (minitdf_names fs d)" by (rule is_minitdf_card)
next
  fix a b
  assume h: "a \<in> set (listdir fs d) \<and> b \<in> set (listdir fs d)
          \<and> fnmatch ''*ms2spectrum.bin'' a \<and> fnmatch ''*ms2spectrum.parquet'' b"
  then have "a \<noteq> b" using patterns_disjoint [of a] by blast
  moreover have "a \<in> minitdf_names fs d" "b \<in> minitdf_names fs d"
    using h by (simp_all add: minitdf_names_def)
  moreover have "finite (minitdf_names fs d)" by (simp add: minitdf_names_def)
  ultimately have "2 \<le> card (minitdf_names fs d)" by (metis two_le_card)
  then show "is_minitdf fs d" by (simp add: is_minitdf_card)
next
  fix a
  assume "minitdf_names fs d = {a}"
  then show "\<not> is_minitdf fs d" by (simp add: is_minitdf_card)
next
  fix a b
  assume h: "a \<in> set (listdir fs d) \<and> b \<in> set (listdir fs d) \<and> a \<noteq> b
          \<and> fnmatch ''*ms2spectrum.bin'' a \<and> fnmatch ''*ms2spectrum.bin'' b"
  then have "a \<in> minitdf_names fs d" "b \<in> minitdf_names fs d" "a \<noteq> b"
    by (simp_all add: minitdf_names_def)
  moreover have "finite (minitdf_names fs d)" by (simp add: minitdf_names_def)
  ultimately have "2 \<le> card (minitdf_names fs d)" by (metis two_le_card)
  then show "is_minitdf fs d" by (simp add: is_minitdf_card)
qed

lemma listdir_tdf: "listdir example_fs ''tdf'' = [''a.ms2spectrum.bin'', ''a.ms2spectrum.parquet'']"
  by (simp add: example_fs_def)
lemma listdir_tdf_one: "listdir example_fs ''tdf_one'' = [''a.ms2spectrum.bin'']"
  by (simp add: example_fs_def)
lemma listdir_tdf_bins: "listdir example_fs ''tdf_bins'' = [''a.ms2spectrum.bin'', ''b.ms2spectrum.bin'']"
  by (simp add: example_fs_def)

theorem is_minitdf_two_matches_witness:
  "is_minitdf example_fs ''tdf'' \<and> \<not> is_minitdf example_fs ''tdf_one''
   \<and> is_minitdf example_fs ''tdf_bins''"
proof -
  have "''a.ms2spectrum.bin'' \<in> set (listdir example_fs ''tdf'')
      \<and> ''a.ms2spectrum.parquet'' \<in> set (listdir example_fs ''tdf'')
      \<and> fnmatch ''*ms2spectrum.bin'' ''a.ms2spectrum.bin''
      \<and> fnmatch ''*ms2spectrum.parquet'' ''a.ms2spectrum.parquet''"
    by (simp add: listdir_tdf)
  with is_minitdf_two_matches [of example_fs "''tdf''"]
  have each: "is_minitdf example_fs ''tdf''" by blast
  have "minitdf_names example_fs ''tdf_one'' = {''a.ms2spectrum.bin''}"
    by (auto simp: minitdf_names_def listdir_tdf_one)
  with is_minitdf_two_matches [of example_fs "''tdf_one''"]
  have single: "\<not> is_minitdf example_fs ''tdf_one''" by blast
  have "''a.ms2spectrum.bin'' \<in> set (listdir example_fs ''tdf_bins'')
      \<and> ''b.ms2spectrum.bin'' \<in> set (listdir example_fs ''tdf_bins'')
      \<and> ''a.ms2spectrum.bin'' \<noteq> ''b.ms2spectrum.bin''
      \<and> fnmatch ''*ms2spectrum.bin'' ''a.ms2spectrum.bin''
      \<and> fnmatch ''*ms2spectrum.bin'' ''b.ms2spectrum.bin''"
    by (simp add: listdir_tdf_bins)
  with is_minitdf_two_matches [of example_fs "''tdf_bins''"]
  have same: "is_minitdf example_fs ''tdf_bins''" by blast
  from each single same show ?thesis by simp
qed

section \<open>Properties of the precursor extraction\<close>

lemma lookup_run_lengths:
  "lookup_run m r ips arrs = Inr arrs' \<Longrightarrow> array_lengths n arrs \<Longrightarrow> array_lengths n arrs'"
proof (induction m r ips arrs rule: lookup_run.induct)
  case (1 precursors r arrs)
  then show ?case by simp
next
  case (2 precursors r i psm rest mzs rts ims)
  then show ?case
    by (auto simp: array_lengths_def split: if_splits option.splits)
qed

lemma extract_runs_lengths:
  "extract_runs resolve reader ips runs arrs = Inr arrs' \<Longrightarrow> array_lengths n arrs
     \<Longrightarrow> array_lengths n arrs'"
proof (induction runs arbitrary: arrs)
  case Nil
  then show ?case by simp
next
  case (Cons r runs)
  then show ?case
    by (auto split: sum.splits dest: lookup_run_lengths)
qed

lemma get_precursor_values_lengths:
  assumes "get_precursor_values resolve reader psm_list = Inr (mzs, rts, ims)"
  shows "length mzs = length psm_list \<and> length rts = length psm_list
         \<and> length ims = length psm_list"
proof -
  let ?z = "replicate (length psm_list) (0::real)"
  have "array_lengths (length psm_list) (?z, ?z, ?z)" by (simp add: array_lengths_def)
  with assms have "array_lengths (length psm_list) (mzs, rts, ims)"
    unfolding get_precursor_values_def Let_def by (rule extract_runs_lengths)
  then show ?thesis by (simp add: array_lengths_def)
qed

lemma write_values_length: "length (write_values psms mzs rts ims) = length psms"
  by (induction psms mzs rts ims rule: write_values.induct) simp_all

lemma write_values_ion_mobility:
  "length mzs = length psms \<Longrightarrow> length rts = length psms \<Longrightarrow> length ims = length psms
   \<Longrightarrow> map psm_ion_mobility (write_values psms mzs rts ims) = map Some ims"
  by (induction psms mzs rts ims rule: write_values.induct) simp_all

lemma lookup_run_missing:
  assumes "(i, q) \<in> set ips" and "psm_run q = r" and "m (psm_spectrum_id q) = None"
  shows "\<exists>j p. (j, p) \<in> set ips \<and> psm_run p = r \<and> m (psm_spectrum_id p) = None
           \<and> lookup_run m r ips arrs
               = Inl (SpectrumParsingError (PrecursorNotFound (psm_spectrum_id p) r))"
  using assms
proof (induction m r ips arrs rule: lookup_run.induct)
  case (1 precursors r arrs)
  then show ?case by simp
next
  case (2 precursors r j psm rest mzs rts ims)
  show ?case
  proof (cases "psm_run psm = r \<and> precursors (psm_spectrum_id psm) = None")
    case True
    then show ?thesis by auto
  next
    case False
    with "2.prems" have in_rest: "(i, q) \<in> set rest" by auto
    show ?thesis
    proof (cases "psm_run psm = r")
      case other: False
      from "2.IH"(1) [OF other in_rest "2.prems"(2,3)] other show ?thesis by auto
    next
      case same: True
      with False obtain rec where rec: "precursors (psm_spectrum_id psm) = Some rec" by auto
      from same have ne: "\<not> psm_run psm \<noteq> r" by simp
      from "2.IH"(2) [OF ne rec in_rest "2.prems"(2,3)] same rec show ?thesis by auto
    qed
  qed
qed

lemma lookup_run_error:
  "lookup_run m r ips arrs = Inl e \<Longrightarrow>
     \<exists>j p. (j, p) \<in> set ips \<and> psm_run p = r \<and> m (psm_spectrum_id p) = None
          \<and> e = SpectrumParsingError (PrecursorNotFound (psm_spectrum_id p) r)"
proof (induction m r ips arrs rule: lookup_run.induct)
  case (1 precursors r arrs)
  then show ?case by simp
next
  case (2 precursors r j psm rest mzs rts ims)
  then show ?case
    by (fastforce split: if_splits option.splits)
qed

lemma extract_runs_fails:
  assumes "\<exists>r\<in>set runs. missing_in resolve reader ips r"
  shows "isl (extract_runs resolve reader ips runs arrs)"
  using assms
proof (induction runs arbitrary: arrs)
  case Nil
  then show ?case by simp
next
  case (Cons r runs)
  show ?case
  proof (cases "resolve r")
    case (Inl e)
    then show ?thesis by simp
  next
    case (Inr source)
    show ?thesis
    proof (cases "lookup_run (reader source) r ips arrs")
      case (Inl e)
      with Inr show ?thesis by simp
    next
      case ok: (Inr arrs')
      have "\<not> missing_in resolve reader ips r"
      proof
        assume "missing_in resolve reader ips r"
        then obtain j p where "(j, p) \<in> set ips" "psm_run p = r"
            "reader source (psm_spectrum_id p) = None"
          using Inr by (auto simp: missing_in_def)
        then have "isl (lookup_run (reader source) r ips arrs)"
          using lookup_run_missing [of j p ips r "reader source" arrs] by auto
        with ok show False by simp
      qed
      with Cons.prems have "\<exists>r\<in>set runs. missing_in resolve reader ips r" by auto
      then have "isl (extract_runs resolve reader ips runs arrs')" by (rule Cons.IH)
      with Inr ok show ?thesis by simp
    qed
  qed
qed

lemma extract_runs_error:
  assumes "extract_runs resolve reader ips runs arrs = Inl e"
    and "\<forall>r\<in>set runs. \<exists>source. resolve r = Inr source"
  shows "\<exists>j p source. (j, p) \<in> set ips \<and> resolve (psm_run p) = Inr source
           \<and> reader source (psm_spectrum_id p) = None
           \<and> e = SpectrumParsingError (PrecursorNotFound (psm_spectrum_id p) (psm_run p))"
  using assms
proof (induction runs arbitrary: arrs)
  case Nil
  then show ?case by simp
next
  case (Cons r runs)
  from Cons.prems(2) obtain source where src: "resolve r = Inr source" by auto
  show ?case
  proof (cases "lookup_run (reader source) r ips arrs")
    case (Inl e')
    with Cons.prems(1) src have "e' = e" by simp
    with lookup_run_error [OF Inl] src show ?thesis by blast
  next
    case (Inr arrs')
    with Cons.prems(1) src have "extract_runs resolve reader ips runs arrs' = Inl e" by simp
    moreover from Cons.prems(2) have "\<forall>r\<in>set runs. \<exists>source. resolve r = Inr source" by simp
    ultimately show ?thesis by (rule Cons.IH)
  qed
qed

lemma in_enumerate: "p \<in> set xs \<Longrightarrow> \<exists>j. (j, p) \<in> set (enumerate 0 xs)"
proof -
  assume "p \<in> set xs"
  then obtain i where "i < length xs" "xs ! i = p" by (auto simp: in_set_conv_nth)
  then have "(i, p) \<in> set (enumerate 0 xs)" by (simp add: in_set_enumerate_eq)
  then show ?thesis by blast
qed

lemma enumerate_in: "(j, p) \<in> set (enumerate 0 xs) \<Longrightarrow> p \<in> set xs"
  by (auto simp: in_set_enumerate_eq)

lemma mock_extraction:
  "get_precursor_values (mock_infer_spectrum_path ''test_data'') mock_precursor_info mock_psm_list
     = Inr ([529.7935187324, 651.83], [10.5, 12.3], [1.0, 1.2])"
  by (simp add: get_precursor_values_def mock_psm_list_def mock_infer_spectrum_path_def
      mock_precursor_info_def)

lemma mock_extraction_missing_im:
  "get_precursor_values (mock_infer_spectrum_path ''test_data'') mock_precursor_info_missing_im
      mock_psm_list
     = Inr ([529.7935187324, 651.83], [10.5, 12.3], [0, 0])"
  by (simp add: get_precursor_values_def mock_psm_list_def mock_infer_spectrum_path_def
      mock_precursor_info_missing_im_def)

lemma mock_nothing_available: "\<not> all_precursor_types \<subseteq> already_available mock_psm_list"
  by (simp add: all_precursor_types_def already_available_def mock_psm_list_def)

text \<open>
  C1: when \<^verbatim>\<open>add_precursor_values\<close> has to extract and the extraction succeeds, the
  ion mobility is decided by the extracted values. If all of them are \<open>0\<close>, the returned
  set does not contain \<open>ion_mobility\<close> and every PSM has its ion mobility set to null. If
  one of them is not \<open>0\<close>, the returned set contains \<open>ion_mobility\<close> and every PSM holds
  the extracted value of its position.
\<close>

theorem add_precursor_values_ion_mobility:
  assumes "\<not> required \<subseteq> already_available psm_list"
    and "get_precursor_values (resolve_path ext spectrum_root) (get_precursor_info ext) psm_list
           = Inr (mzs, rts, ims)"
  shows "\<exists>psms' available.
           add_precursor_values ext psm_list required (Some spectrum_root) = Inr (psms', available)
         \<and> length psms' = length psm_list
         \<and> ((\<forall>v\<in>set ims. v = 0) \<longrightarrow>
               ion_mobility \<notin> available \<and> (\<forall>p\<in>set psms'. psm_ion_mobility p = None))
         \<and> ((\<exists>v\<in>set ims. v \<noteq> 0) \<longrightarrow>
               ion_mobility \<in> available \<and> map psm_ion_mobility psms' = map Some ims)"
proof (cases "list_all (\<lambda>v. v = 0) ims")
  case True
  let ?psms = "map (\<lambda>p. p\<lparr>psm_ion_mobility := None\<rparr>) (write_values psm_list mzs rts ims)"
  have "add_precursor_values ext psm_list required (Some spectrum_root)
          = Inr (?psms, {retention_time, precursor_mz} \<union> {ms2_spectra})"
    using assms True by (simp add: add_precursor_values_def del: Un_insert_left Un_insert_right)
  moreover have "length ?psms = length psm_list" by (simp add: write_values_length)
  moreover have "\<forall>p\<in>set ?psms. psm_ion_mobility p = None" by auto
  moreover have "\<not> (\<exists>v\<in>set ims. v \<noteq> 0)" using True by (simp add: list_all_iff)
  ultimately show ?thesis by simp
next
  case False
  let ?psms = "write_values psm_list mzs rts ims"
  have "add_precursor_values ext psm_list required (Some spectrum_root)
          = Inr (?psms, {retention_time, ion_mobility, precursor_mz} \<union> {ms2_spectra})"
    using assms False by (simp add: add_precursor_values_def del: Un_insert_left Un_insert_right)
  moreover have "length ?psms = length psm_list" by (simp add: write_values_length)
  moreover have "map psm_ion_mobility ?psms = map Some ims"
    using get_precursor_values_lengths [OF assms(2)] by (simp add: write_values_ion_mobility)
  moreover have "\<not> (\<forall>v\<in>set ims. v = 0)" using False by (simp add: list_all_iff)
  ultimately show ?thesis by simp
qed

theorem add_precursor_values_ion_mobility_witness:
  "(\<exists>psms' available.
      add_precursor_values
        \<lparr>resolve_path = mock_infer_spectrum_path,
         get_precursor_info = mock_precursor_info_missing_im\<rparr>
        mock_psm_list all_precursor_types (Some ''test_data'') = Inr (psms', available)
    \<and> length psms' = 2 \<and> ion_mobility \<notin> available
    \<and> (\<forall>p\<in>set psms'. psm_ion_mobility p = None))
   \<and> (\<exists>psms' available.
      add_precursor_values
        \<lparr>resolve_path = mock_infer_spectrum_path, get_precursor_info = mock_precursor_info\<rparr>
        mock_psm_list all_precursor_types (Some ''test_data'') = Inr (psms', available)
    \<and> ion_mobility \<in> available
    \<and> map psm_ion_mobility psms' = [Some 1.0, Some 1.2])"
proof -
  let ?zero = "\<lparr>resolve_path = mock_infer_spectrum_path,
                get_precursor_info = mock_precursor_info_missing_im\<rparr>"
  let ?full = "\<lparr>resolve_path = mock_infer_spectrum_path,
                get_precursor_info = mock_precursor_info\<rparr>"
  have z: "get_precursor_values (resolve_path ?zero ''test_data'') (get_precursor_info ?zero)
             mock_psm_list = Inr ([529.7935187324, 651.83], [10.5, 12.3], [0, 0])"
    by (simp add: mock_extraction_missing_im)
  have f: "get_precursor_values (resolve_path ?full ''test_data'') (get_precursor_info ?full)
             mock_psm_list = Inr ([529.7935187324, 651.83], [10.5, 12.3], [1.0, 1.2])"
    by (simp add: mock_extraction)
  have len: "length mock_psm_list = 2" by (simp add: mock_psm_list_def)
  from add_precursor_values_ion_mobility [OF mock_nothing_available z]
  have a: "\<exists>psms' available.
      add_precursor_values ?zero mock_psm_list all_precursor_types (Some ''test_data'')
        = Inr (psms', available)
    \<and> length psms' = 2 \<and> ion_mobility \<notin> available
    \<and> (\<forall>p\<in>set psms'. psm_ion_mobility p = None)"
    by (simp add: len)
  from add_precursor_values_ion_mobility [OF mock_nothing_available f]
  have b: "\<exists>psms' available.
      add_precursor_values ?full mock_psm_list all_precursor_types (Some ''test_data'')
        = Inr (psms', available)
    \<and> ion_mobility \<in> available
    \<and> map psm_ion_mobility psms' = [Some 1.0, Some 1.2]"
    by auto
  from a b show ?thesis by blast
qed

text \<open>
  C2: the extraction is fail-fast. If the run of some PSM resolves to a source whose map
  has no record for the spectrum identifier of that PSM, \<^verbatim>\<open>_get_precursor_values\<close>
  returns an error and no arrays; and when every run of the list resolves, the error is
  a \<^verbatim>\<open>SpectrumParsingError\<close> that names the identifier and the run of a PSM without
  record. The witness is the test with the PSMs \<^verbatim>\<open>spectrum1\<close>, \<^verbatim>\<open>spectrum2\<close> and a
  map that holds only \<^verbatim>\<open>spectrum1\<close>.
\<close>

theorem get_precursor_values_fail_fast:
  assumes "p \<in> set psm_list" and "resolve (psm_run p) = Inr source"
    and "reader source (psm_spectrum_id p) = None"
  shows "(\<exists>e. get_precursor_values resolve reader psm_list = Inl e)
       \<and> ((\<forall>q\<in>set psm_list. \<exists>s. resolve (psm_run q) = Inr s) \<longrightarrow>
            (\<exists>q\<in>set psm_list. \<exists>s. resolve (psm_run q) = Inr s
                \<and> reader s (psm_spectrum_id q) = None
                \<and> get_precursor_values resolve reader psm_list
                    = Inl (SpectrumParsingError
                             (PrecursorNotFound (psm_spectrum_id q) (psm_run q)))))"
proof -
  define ips where "ips = enumerate 0 psm_list"
  define runs where "runs = remdups (map psm_run psm_list)"
  define z where "z = replicate (length psm_list) (0::real)"
  have eq: "get_precursor_values resolve reader psm_list
              = extract_runs resolve reader ips runs (z, z, z)"
    by (simp add: get_precursor_values_def Let_def ips_def runs_def z_def)
  from in_enumerate [OF assms(1)] obtain j where "(j, p) \<in> set ips"
    unfolding ips_def by blast
  with assms(2,3) have "missing_in resolve reader ips (psm_run p)"
    unfolding missing_in_def by blast
  moreover have "psm_run p \<in> set runs" using assms(1) by (simp add: runs_def)
  ultimately have "\<exists>r\<in>set runs. missing_in resolve reader ips r" by blast
  then have "isl (extract_runs resolve reader ips runs (z, z, z))"
    by (rule extract_runs_fails)
  then obtain e where ex: "extract_runs resolve reader ips runs (z, z, z) = Inl e"
    by (cases "extract_runs resolve reader ips runs (z, z, z)") simp_all
  have first: "\<exists>e. get_precursor_values resolve reader psm_list = Inl e"
    using ex eq by simp
  have second: "\<exists>q\<in>set psm_list. \<exists>s. resolve (psm_run q) = Inr s
          \<and> reader s (psm_spectrum_id q) = None
          \<and> get_precursor_values resolve reader psm_list
              = Inl (SpectrumParsingError (PrecursorNotFound (psm_spectrum_id q) (psm_run q)))"
    if all: "\<forall>q\<in>set psm_list. \<exists>s. resolve (psm_run q) = Inr s"
  proof -
    from all have "\<forall>r\<in>set runs. \<exists>source. resolve r = Inr source"
      by (auto simp: runs_def)
    from extract_runs_error [OF ex this] obtain k q s where q:
      "(k, q) \<in> set ips" "resolve (psm_run q) = Inr s"
      "reader s (psm_spectrum_id q) = None"
      "e = SpectrumParsingError (PrecursorNotFound (psm_spectrum_id q) (psm_run q))"
      by blast
    from q(1) have "q \<in> set psm_list" unfolding ips_def by (rule enumerate_in)
    moreover have "get_precursor_values resolve reader psm_list
        = Inl (SpectrumParsingError (PrecursorNotFound (psm_spectrum_id q) (psm_run q)))"
      using ex eq q(4) by simp
    ultimately show ?thesis using q(2,3) by blast
  qed
  from first second show ?thesis by blast
qed

theorem get_precursor_values_fail_fast_witness:
  "get_precursor_values (mock_infer_spectrum_path ''test_data'') mock_precursor_info_incomplete
      mock_psm_list
     = Inl (SpectrumParsingError (PrecursorNotFound ''spectrum2'' ''run1''))"
proof -
  define p where "p = \<lparr>psm_run = ''run1'', psm_spectrum_id = ''spectrum2'',
       psm_retention_time = None, psm_ion_mobility = None, psm_precursor_mz = None\<rparr>"
  define src where "src = Path ''test_data/test_spectrum_file.mgf''"
  have 1: "p \<in> set mock_psm_list" by (simp add: mock_psm_list_def p_def)
  have 2: "mock_infer_spectrum_path ''test_data'' (psm_run p) = Inr src"
    by (simp add: mock_infer_spectrum_path_def src_def)
  have 3: "mock_precursor_info_incomplete src (psm_spectrum_id p) = None"
    by (simp add: mock_precursor_info_incomplete_def p_def)
  have all: "\<forall>q\<in>set mock_psm_list. \<exists>s. mock_infer_spectrum_path ''test_data'' (psm_run q) = Inr s"
    by (simp add: mock_infer_spectrum_path_def)
  from get_precursor_values_fail_fast
         [of p mock_psm_list "mock_infer_spectrum_path ''test_data''" src
             mock_precursor_info_incomplete, OF 1 2 3] all
  obtain q s where q: "q \<in> set mock_psm_list"
      "mock_precursor_info_incomplete s (psm_spectrum_id q) = None"
      "get_precursor_values (mock_infer_spectrum_path ''test_data'')
          mock_precursor_info_incomplete mock_psm_list
        = Inl (SpectrumParsingError (PrecursorNotFound (psm_spectrum_id q) (psm_run q)))"
    by blast
  from q(1) have "q = hd mock_psm_list \<or> q = p"
    by (auto simp: mock_psm_list_def p_def)
  moreover have "mock_precursor_info_incomplete s (psm_spectrum_id (hd mock_psm_list)) \<noteq> None"
    by (simp add: mock_psm_list_def mock_precursor_info_incomplete_def)
  ultimately have "q = p" using q(2) by auto
  with q(3) show ?thesis by (simp add: p_def)
qed

end
